theory Spec2Isabelle
  imports Main
begin

section \<open>WhatsApp bulk sender (app.py): the data the program handles\<close>

subsection \<open>JSON values, as Python's json module decodes them\<close>

text \<open>
  A decoded JSON document. An object is a Python dict, kept as its key/value pairs
  (each key once) in insertion order and read with \<open>map_of\<close>. The program never
  computes with a number, it only passes it on.
\<close>

datatype json =
    JNull
  | JBool bool
  | JNum int
  | JStr string
  | JArray "json list"
  | JObject "(string \<times> json) list"

subsection \<open>Python exceptions the program can meet\<close>

text \<open>
  \<open>RequestException\<close> stands for the exception \<open>requests.get\<close> or \<open>requests.post\<close>
  raises itself when no response arrives (connection error, timeout, ...).
  \<open>HTTPError\<close> is what \<open>raise_for_status\<close> raises; \<open>JSONDecodeError\<close> is what
  \<open>response.json()\<close> raises on a body that is not JSON. The first three are
  subclasses of \<open>requests.exceptions.RequestException\<close>, the others are not.
\<close>

datatype exn =
    RequestException
  | HTTPError nat
  | JSONDecodeError
  | AttributeError
  | KeyError string
  | TypeError
  | UnboundLocalError

fun is_request_exception :: "exn \<Rightarrow> bool" where
  "is_request_exception RequestException = True"
| "is_request_exception (HTTPError _) = True"
| "is_request_exception JSONDecodeError = True"
| "is_request_exception _ = False"

subsection \<open>The HTTP client (the requests library) and the network\<close>

datatype verb = GET | POST

record http_request =
  verb :: verb
  url :: string
  headers :: "(string \<times> string) list"
  params :: "(string \<times> string) list"
  payload :: "json option"

text \<open>
  What one call of \<open>requests.get\<close>/\<open>requests.post\<close> gives: either it raises (no
  response object exists), or it returns a response with a status code and a body;
  the body is \<open>Some j\<close> when \<open>response.json()\<close> decodes it to \<open>j\<close> and \<open>None\<close> when
  decoding raises.
\<close>

datatype http_result =
    Transport_failure
  | Response nat "json option"

text \<open>\<open>Response.raise_for_status\<close> raises for the 4xx and 5xx codes only.\<close>

definition raise_for_status :: "nat \<Rightarrow> bool" where
  "raise_for_status code = (400 \<le> code \<and> code < 600)"

text \<open>
  The network is any deterministic environment: a state \<open>'w\<close> of the outside world and
  a function answering each request from it.
\<close>

type_synonym 'w net = "'w \<Rightarrow> http_request \<Rightarrow> http_result \<times> 'w"

subsection \<open>Cells of the uploaded table\<close>

text \<open>
  A value of a pandas column after \<open>tolist()\<close>: a Python int, str, bool or float. A
  float is kept as the text \<open>str()\<close> gives for it (\<open>nan\<close> for a missing cell); the
  program does no arithmetic on it.
\<close>

datatype cell = CInt int | CStr string | CBool bool | CFloat string

subsection \<open>What the Streamlit page shows\<close>

datatype send_response =
    Send_ok json
  | Send_failed exn json

datatype message =
    Error_fetching_templates exn
  | Unexpected_error exn
  | No_templates_or_error
  | Provide_token_and_waba_id
  | Select_template_first
  | Upload_csv_and_select
  | Select_phone_column
  | Not_sent_over_maximum nat
  | No_recipients_selected
  | Preparing_to_send json nat
  | Successfully_sent nat nat
  | Failed_to_send nat nat

datatype ui_event =
    St_error message
  | St_warning message
  | St_info message
  | St_success message
  | St_json json
  | St_spinner_fetching
  | St_spinner_sending cell nat nat
  | St_progress nat nat
  | St_header_results
  | St_failed_detail cell send_response

text \<open>
  The effects of a run: the world the network answers from, the HTTP calls issued so
  far and the widgets written so far, both oldest first.
\<close>

record 'w io =
  world :: 'w
  calls :: "http_request list"
  shown :: "ui_event list"

definition emit :: "ui_event \<Rightarrow> 'w io \<Rightarrow> 'w io" where
  "emit e s = s\<lparr>shown := shown s @ [e]\<rparr>"

definition http_call :: "'w net \<Rightarrow> http_request \<Rightarrow> 'w io \<Rightarrow> http_result \<times> 'w io" where
  "http_call net rq s =
     (case net (world s) rq of
        (r, w') \<Rightarrow> (r, s\<lparr>world := w', calls := calls s @ [rq]\<rparr>))"

section \<open>get_message_templates\<close>

text \<open>Python's \<open>d.get(k, default)\<close>: only a dict has the attribute.\<close>

fun py_get :: "json \<Rightarrow> string \<Rightarrow> json \<Rightarrow> exn + json" where
  "py_get (JObject kvs) k d = Inr (case map_of kvs k of None \<Rightarrow> d | Some v \<Rightarrow> v)"
| "py_get _ k d = Inl AttributeError"

text \<open>
  Python's \<open>d[k]\<close> with a str key: a dict without the key raises KeyError, and no
  other decoded value takes a str subscript.
\<close>

fun py_item :: "json \<Rightarrow> string \<Rightarrow> exn + json" where
  "py_item (JObject kvs) k = (case map_of kvs k of None \<Rightarrow> Inl (KeyError k) | Some v \<Rightarrow> Inr v)"
| "py_item _ k = Inl TypeError"

text \<open>
  What a \<open>for\<close> over a decoded value visits: the elements of a list, the keys of a
  dict, the one-character strings of a str; anything else is not iterable.
\<close>

fun py_iter :: "json \<Rightarrow> exn + json list" where
  "py_iter (JArray xs) = Inr xs"
| "py_iter (JObject kvs) = Inr (map (\<lambda>kv. JStr (fst kv)) kvs)"
| "py_iter (JStr s) = Inr (map (\<lambda>c. JStr [c]) s)"
| "py_iter _ = Inl TypeError"

text \<open>
  The comprehension \<open>[t['name'] for t in templates if t.get('status') == 'APPROVED']\<close>,
  element by element; the first exception ends it.
\<close>

fun approved_templates :: "json list \<Rightarrow> exn + json list" where
  "approved_templates [] = Inr []"
| "approved_templates (t # ts) =
     (case py_get t ''status'' JNull of
        Inl e \<Rightarrow> Inl e
      | Inr st \<Rightarrow>
          if st = JStr ''APPROVED'' then
            (case py_item t ''name'' of
               Inl e \<Rightarrow> Inl e
             | Inr n \<Rightarrow>
                 (case approved_templates ts of
                    Inl e \<Rightarrow> Inl e
                  | Inr ns \<Rightarrow> Inr (n # ns)))
          else approved_templates ts)"

text \<open>Lines 26 to 28: from the decoded body to the approved names.\<close>

definition templates_of_body :: "json \<Rightarrow> exn + json list" where
  "templates_of_body j =
     (case py_get j ''data'' (JArray []) of
        Inl e \<Rightarrow> Inl e
      | Inr templates \<Rightarrow>
          (case py_iter templates of
             Inl e \<Rightarrow> Inl e
           | Inr ts \<Rightarrow> approved_templates ts))"

text \<open>
  The steps both API functions share inside their \<open>try\<close>: the call returned or
  raised, \<open>raise_for_status()\<close>, \<open>response.json()\<close>.
\<close>

definition checked_json :: "http_result \<Rightarrow> exn + json" where
  "checked_json r =
     (case r of
        Transport_failure \<Rightarrow> Inl RequestException
      | Response code body \<Rightarrow>
          if raise_for_status code then Inl (HTTPError code)
          else (case body of None \<Rightarrow> Inl JSONDecodeError | Some j \<Rightarrow> Inr j))"

text \<open>
  \<open>response.json()\<close> inside an \<open>except\<close> handler: when the call itself raised, the
  local variable \<open>response\<close> was never assigned.
\<close>

definition response_json :: "http_result \<Rightarrow> exn + json" where
  "response_json r =
     (case r of
        Transport_failure \<Rightarrow> Inl UnboundLocalError
      | Response code None \<Rightarrow> Inl JSONDecodeError
      | Response code (Some j) \<Rightarrow> Inr j)"

definition templates_request :: "string \<Rightarrow> string \<Rightarrow> http_request" where
  "templates_request token waba_id =
     \<lparr>verb = GET,
      url = ''https://graph.facebook.com/v23.0/'' @ waba_id @ ''/message_templates'',
      headers = [(''Authorization'', ''Bearer '' @ token)],
      params = [(''fields'', ''name,status'')],
      payload = None\<rparr>"

text \<open>
  Lines 23 to 36. The result is \<open>Inr\<close> of the returned list, or \<open>Inl\<close> of an exception
  that leaves the function. The first handler takes every \<open>RequestException\<close> (with
  requests 2.27 or later that includes the decoding error of \<open>response.json()\<close>); the
  second takes the rest and shows \<open>response.json()\<close> again.
\<close>

definition get_message_templates ::
    "'w net \<Rightarrow> string \<Rightarrow> string \<Rightarrow> 'w io \<Rightarrow> (exn + json list) \<times> 'w io" where
  "get_message_templates net token waba_id s =
     (case http_call net (templates_request token waba_id) s of
        (r, s1) \<Rightarrow>
          (case (case checked_json r of Inl e \<Rightarrow> Inl e | Inr j \<Rightarrow> templates_of_body j) of
             Inr approved \<Rightarrow> (Inr approved, s1)
           | Inl e \<Rightarrow>
               if is_request_exception e then
                 (Inr [], emit (St_error (Error_fetching_templates e)) s1)
               else
                 (case response_json r of
                    Inl e' \<Rightarrow> (Inl e', emit (St_error (Unexpected_error e)) s1)
                  | Inr j \<Rightarrow>
                      (Inr [], emit (St_json j) (emit (St_error (Unexpected_error e)) s1)))))"

text \<open>Lines 118 to 125: the fetch button. It returns the new \<open>session_state.templates\<close>.\<close>

definition fetch_button ::
    "'w net \<Rightarrow> string \<Rightarrow> string \<Rightarrow> json list \<Rightarrow> 'w io \<Rightarrow> (exn + json list) \<times> 'w io" where
  "fetch_button net api_token waba_id templates s =
     (if api_token \<noteq> [] \<and> waba_id \<noteq> [] then
        (case get_message_templates net api_token waba_id (emit St_spinner_fetching s) of
           (Inl e, s1) \<Rightarrow> (Inl e, s1)
         | (Inr ts, s1) \<Rightarrow>
             (Inr ts, if ts = [] then emit (St_warning No_templates_or_error) s1 else s1))
      else (Inr templates, emit (St_error Provide_token_and_waba_id) s))"

section \<open>send_template_message\<close>

definition text_parameter :: "string \<Rightarrow> json" where
  "text_parameter var = JObject [(''type'', JStr ''text''), (''text'', JStr var)]"

text \<open>Lines 59 to 62: \<open>components\<close> starts empty and gets one body entry if there are variables.\<close>

definition components_of :: "string list \<Rightarrow> json list" where
  "components_of variables =
     (if variables \<noteq> [] then
        [] @ [JObject [(''type'', JStr ''body''),
                       (''parameters'', JArray (map text_parameter variables))]]
      else [])"

text \<open>Lines 64 to 73: the dict handed to \<open>json.dumps\<close>.\<close>

definition message_data :: "string \<Rightarrow> json \<Rightarrow> string list \<Rightarrow> json" where
  "message_data to_phone_number template_name variables =
     JObject
       [(''messaging_product'', JStr ''whatsapp''),
        (''to'', JStr to_phone_number),
        (''type'', JStr ''template''),
        (''template'',
           JObject
             [(''name'', template_name),
              (''language'', JObject [(''code'', JStr ''en_US'')]),
              (''components'', JArray (components_of variables))])]"

definition messages_request ::
    "string \<Rightarrow> string \<Rightarrow> string \<Rightarrow> json \<Rightarrow> string list \<Rightarrow> http_request" where
  "messages_request token phone_id to_phone_number template_name variables =
     \<lparr>verb = POST,
      url = ''https://graph.facebook.com/v19.0/'' @ phone_id @ ''/messages'',
      headers = [(''Authorization'', ''Bearer '' @ token),
                 (''Content-Type'', ''application/json'')],
      params = [],
      payload = Some (message_data to_phone_number template_name variables)\<rparr>"

text \<open>
  Lines 74 to 79. The only handler takes a \<open>RequestException\<close> and builds the failure
  dict, reading \<open>response.json()\<close> for its \<open>details\<close>; an exception raised there, or one
  the handler does not take, leaves the function.
\<close>

definition send_template_message ::
    "'w net \<Rightarrow> string \<Rightarrow> string \<Rightarrow> string \<Rightarrow> json \<Rightarrow> string list \<Rightarrow> 'w io
       \<Rightarrow> (exn + send_response) \<times> 'w io" where
  "send_template_message net token phone_id to_phone_number template_name variables s =
     (case http_call net
             (messages_request token phone_id to_phone_number template_name variables) s of
        (r, s1) \<Rightarrow>
          (case checked_json r of
             Inr j \<Rightarrow> (Inr (Send_ok j), s1)
           | Inl e \<Rightarrow>
               if is_request_exception e then
                 (case response_json r of
                    Inl e' \<Rightarrow> (Inl e', s1)
                  | Inr details \<Rightarrow> (Inr (Send_failed e details), s1))
               else (Inl e, s1)))"

section \<open>The send button\<close>

subsection \<open>The variables text\<close>

text \<open>
  Strings are lists of 8-bit characters, read as the code points below 256.
  \<open>str.isspace\<close> holds there for tab, line feed, vertical tab, form feed, carriage
  return, the four separators 28 to 31, space, NEL (133) and the no-break space (160).
\<close>

definition py_isspace :: "char \<Rightarrow> bool" where
  "py_isspace c =
     (let n = (of_char c :: nat)
      in (9 \<le> n \<and> n \<le> 13) \<or> (28 \<le> n \<and> n \<le> 32) \<or> n = 133 \<or> n = 160)"

text \<open>\<open>str.strip()\<close>: drop the whitespace at both ends.\<close>

definition py_strip :: "string \<Rightarrow> string" where
  "py_strip s = rev (dropWhile py_isspace (rev (dropWhile py_isspace s)))"

text \<open>
  \<open>str.split(sep)\<close> for a one-character separator: cut at every occurrence; a string
  without the separator gives itself, the empty string included.
\<close>

function py_split :: "char \<Rightarrow> string \<Rightarrow> string list" where
  "py_split sep s =
     (case dropWhile (\<lambda>c. c \<noteq> sep) s of
        [] \<Rightarrow> [s]
      | _ # rest \<Rightarrow> takeWhile (\<lambda>c. c \<noteq> sep) s # py_split sep rest)"
  by pat_completeness auto
termination
proof (relation "measure (\<lambda>(sep, s). length s)")
  show "wf (measure (\<lambda>(sep, s). length s))"
    by simp
next
  fix sep :: char and s :: string and x :: char and rest :: string
  assume cut: "dropWhile (\<lambda>c. c \<noteq> sep) s = x # rest"
  have "length (dropWhile (\<lambda>c. c \<noteq> sep) s) \<le> length s"
    by (rule length_dropWhile_le)
  with cut show "((sep, rest), (sep, s)) \<in> measure (\<lambda>(sep, s). length s)"
    by simp
qed

declare py_split.simps [simp del]

definition newline :: char where
  "newline = CHR 0x0A"

text \<open>Line 204: \<open>[var.strip() for var in template_variables_input.split('\n') if var.strip()]\<close>.\<close>

definition parse_variables :: "string \<Rightarrow> string list" where
  "parse_variables template_variables_input =
     [py_strip var. var \<leftarrow> py_split newline template_variables_input, py_strip var \<noteq> []]"

subsection \<open>str() of a cell\<close>

definition digit_char :: "nat \<Rightarrow> char" where
  "digit_char d = ''0123456789'' ! d"

function str_nat :: "nat \<Rightarrow> string" where
  "str_nat n = (if n < 10 then [digit_char n] else str_nat (n div 10) @ [digit_char (n mod 10)])"
  by pat_completeness auto
termination
  by (relation "measure (\<lambda>n. n)") auto

declare str_nat.simps [simp del]

definition str_int :: "int \<Rightarrow> string" where
  "str_int i = (if i < 0 then CHR ''-'' # str_nat (nat (- i)) else str_nat (nat i))"

fun py_str :: "cell \<Rightarrow> string" where
  "py_str (CInt i) = str_int i"
| "py_str (CStr s) = s"
| "py_str (CBool b) = (if b then ''True'' else ''False'')"
| "py_str (CFloat repr) = repr"

subsection \<open>The edited table and the names the script has bound\<close>

text \<open>
  A row of \<open>edited_df\<close>: its \<open>Send\<close> checkbox and a value under every column name (a
  missing cell is a NaN float). The table lists its other columns.
\<close>

record row =
  Send :: bool
  cells :: "string \<Rightarrow> cell"

record dataframe =
  columns :: "string list"
  rows :: "row list"

text \<open>\<open>df[col].tolist()\<close>: a name that is no column raises KeyError.\<close>

definition column_tolist :: "dataframe \<Rightarrow> string \<Rightarrow> exn + cell list" where
  "column_tolist df col =
     (if col \<in> set (columns df) then Inr (map (\<lambda>r. cells r col) (rows df))
      else Inl (KeyError col))"

text \<open>\<open>edited_df[edited_df['Send'] == True]\<close>.\<close>

definition recipients_to_send :: "dataframe \<Rightarrow> dataframe" where
  "recipients_to_send df = df\<lparr>rows := filter Send (rows df)\<rparr>"

text \<open>
  What the script has when the button is pressed. \<open>selected_template\<close> and
  \<open>template_variables_input\<close> are bound together (lines 127 to 138), or neither is;
  \<open>edited_df\<close> is bound once a table is loaded; \<open>phone_col\<close> is \<open>None\<close> when unbound or
  when the select box has no option.
\<close>

record locals =
  api_token :: string
  phone_number_id :: string
  template_choice :: "(json \<times> string) option"
  edited_df :: "dataframe option"
  phone_col :: "string option"

subsection \<open>The loop and the handler\<close>

type_synonym results = "(cell \<times> send_response) list"

text \<open>
  Lines 215 to 221: \<open>i\<close> counts the recipients done, \<open>acc\<close> is \<open>results\<close>. An exception
  leaving \<open>send_template_message\<close> leaves the loop and the script.
\<close>

fun send_loop ::
    "'w net \<Rightarrow> string \<Rightarrow> string \<Rightarrow> json \<Rightarrow> string list \<Rightarrow> nat \<Rightarrow> nat \<Rightarrow> cell list
       \<Rightarrow> results \<Rightarrow> 'w io \<Rightarrow> (exn + results) \<times> 'w io" where
  "send_loop net token phone_id template variables total_recipients i [] acc s = (Inr acc, s)"
| "send_loop net token phone_id template variables total_recipients i (number # rest) acc s =
     (case send_template_message net token phone_id (py_str number) template variables
             (emit (St_spinner_sending number (i + 1) total_recipients) s) of
        (Inl e, s1) \<Rightarrow> (Inl e, s1)
      | (Inr response, s1) \<Rightarrow>
          send_loop net token phone_id template variables total_recipients (i + 1) rest
            (acc @ [(number, response)]) (emit (St_progress (i + 1) total_recipients) s1))"

fun succeeded :: "cell \<times> send_response \<Rightarrow> bool" where
  "succeeded (number, Send_ok j) = True"
| "succeeded (number, Send_failed e d) = False"

text \<open>Lines 223 to 234: the report after the loop.\<close>

definition report :: "results \<Rightarrow> nat \<Rightarrow> 'w io \<Rightarrow> 'w io" where
  "report res total_recipients s =
     (let s1 = emit (St_success (Successfully_sent (length (filter succeeded res)) total_recipients))
                 (emit St_header_results s);
          failed_messages = filter (\<lambda>r. \<not> succeeded r) res
      in if failed_messages \<noteq> [] then
           fold (\<lambda>failed. emit (St_failed_detail (fst failed) (snd failed))) failed_messages
             (emit (St_error (Failed_to_send (length failed_messages) total_recipients)) s1)
         else s1)"

text \<open>
  Lines 186 to 234. \<open>Inr None\<close>: nothing was sent; \<open>Inr (Some res)\<close>: the loop finished
  with \<open>results = res\<close>; \<open>Inl e\<close>: the script stopped on the uncaught exception \<open>e\<close>.
\<close>

definition send_button :: "'w net \<Rightarrow> locals \<Rightarrow> 'w io \<Rightarrow> (exn + results option) \<times> 'w io" where
  "send_button net l s =
     (case template_choice l of
        None \<Rightarrow> (Inr None, emit (St_warning Select_template_first) s)
      | Some (selected_template, template_variables_input) \<Rightarrow>
          (case edited_df l of
             None \<Rightarrow> (Inr None, emit (St_warning Upload_csv_and_select) s)
           | Some df \<Rightarrow>
               if rows df = [] then (Inr None, emit (St_warning Upload_csv_and_select) s)
               else
                 (case phone_col l of
                    None \<Rightarrow> (Inr None, emit (St_warning Select_phone_column) s)
                  | Some col \<Rightarrow>
                      if col = [] then (Inr None, emit (St_warning Select_phone_column) s)
                      else if length (rows (recipients_to_send df)) > 250 then
                        (Inr None,
                         emit (St_error
                                 (Not_sent_over_maximum (length (rows (recipients_to_send df))))) s)
                      else
                        (case column_tolist (recipients_to_send df) col of
                           Inl e \<Rightarrow> (Inl e, s)
                         | Inr phone_numbers \<Rightarrow>
                             (let variables = parse_variables template_variables_input in
                              if phone_numbers = [] then
                                (Inr None, emit (St_warning No_recipients_selected) s)
                              else
                                (let total_recipients = length phone_numbers in
                                 case send_loop net (api_token l) (phone_number_id l)
                                        selected_template variables total_recipients 0
                                        phone_numbers []
                                        (emit (St_info (Preparing_to_send selected_template
                                                          total_recipients)) s) of
                                   (Inl e, s1) \<Rightarrow> (Inl e, s1)
                                 | (Inr res, s1) \<Rightarrow>
                                     (Inr (Some res), report res total_recipients s1)))))))"

section \<open>Notions the properties are stated with\<close>

text \<open>A field of a decoded object; no other value has fields.\<close>

definition json_field :: "json \<Rightarrow> string \<Rightarrow> json option" where
  "json_field j k = (case j of JObject kvs \<Rightarrow> map_of kvs k | _ \<Rightarrow> None)"

text \<open>An entry of the listing is approved when its status is the string APPROVED.\<close>

definition is_approved :: "json \<Rightarrow> bool" where
  "is_approved t = (json_field t ''status'' = Some (JStr ''APPROVED''))"

text \<open>The names of the approved entries of a listing, in the listing's order.\<close>

definition approved_names :: "json list \<Rightarrow> json list" where
  "approved_names entries =
     List.map_filter (\<lambda>t. if is_approved t then json_field t ''name'' else None) entries"

text \<open>
  An entry as the endpoint sends it: an object, which carries a name when it is
  approved.
\<close>

definition listed_entry :: "json \<Rightarrow> bool" where
  "listed_entry t =
     (case t of
        JObject kvs \<Rightarrow> (if is_approved t then map_of kvs ''name'' \<noteq> None else True)
      | _ \<Rightarrow> False)"

text \<open>A decoded body without a \<open>data\<close> key.\<close>

definition lacks_data :: "json \<Rightarrow> bool" where
  "lacks_data j = (json_field j ''data'' = None)"

text \<open>The \<open>components\<close> entry of the template object of a message, and its \<open>to\<close> entry.\<close>

definition components_field :: "json \<Rightarrow> json option" where
  "components_field d =
     (case json_field d ''template'' of None \<Rightarrow> None | Some t \<Rightarrow> json_field t ''components'')"

definition request_to :: "http_request \<Rightarrow> json option" where
  "request_to rq = (case payload rq of None \<Rightarrow> None | Some d \<Rightarrow> json_field d ''to'')"

text \<open>The \<open>components\<close> entry in the message a request carries.\<close>

definition request_components :: "http_request \<Rightarrow> json option" where
  "request_components rq = (case payload rq of None \<Rightarrow> None | Some d \<Rightarrow> components_field d)"

text \<open>A line is blank when it holds nothing but whitespace.\<close>

definition blank :: "string \<Rightarrow> bool" where
  "blank l = list_all py_isspace l"

text \<open>The calls a run added to the log.\<close>

definition new_calls :: "'w io \<Rightarrow> 'w io \<Rightarrow> http_request list" where
  "new_calls s s' = drop (length (calls s)) (calls s')"

subsection \<open>Concrete environments\<close>

definition start :: "'w \<Rightarrow> 'w io" where
  "start w = \<lparr>world = w, calls = [], shown = []\<rparr>"

text \<open>A network that answers every request the same way.\<close>

definition always :: "http_result \<Rightarrow> unit net" where
  "always r w rq = (r, w)"

text \<open>
  A network that counts the calls and fails to connect on call number \<open>k\<close> (from 0);
  every other call is accepted.
\<close>

definition fails_on_call :: "nat \<Rightarrow> nat net" where
  "fails_on_call k w rq =
     (if w = k then Transport_failure else Response 200 (Some (JObject [])), w + 1)"

text \<open>A table with the one column \<open>phone\<close>, every row ticked.\<close>

definition phone_table :: "cell list \<Rightarrow> dataframe" where
  "phone_table cs =
     \<lparr>columns = [''phone''], rows = map (\<lambda>c. \<lparr>Send = True, cells = (\<lambda>col. c)\<rparr>) cs\<rparr>"

text \<open>
  A network that counts the calls and rejects call number \<open>k\<close> (from 0) with a 400
  and a JSON error body; every other call is accepted.
\<close>

definition rejects_call :: "nat \<Rightarrow> nat net" where
  "rejects_call k w rq =
     (if w = k then Response 400 (Some (JObject [(''error'', JStr ''invalid number'')]))
      else Response 200 (Some (JObject [])), w + 1)"

text \<open>
  The script's names when the template \<open>hello_world\<close> is chosen with no variables and
  the table \<open>phone_table cs\<close> is loaded with its column \<open>phone\<close> chosen.
\<close>

definition ready_to_send :: "string \<Rightarrow> string \<Rightarrow> cell list \<Rightarrow> locals" where
  "ready_to_send token phone_id cs =
     \<lparr>api_token = token, phone_number_id = phone_id,
      template_choice = Some (JStr ''hello_world'', ''''),
      edited_df = Some (phone_table cs), phone_col = Some ''phone''\<rparr>"

text \<open>The same names with another variables text typed in.\<close>

definition with_variables :: "string \<Rightarrow> locals \<Rightarrow> locals" where
  "with_variables input l =
     l\<lparr>template_choice := map_option (\<lambda>choice. (fst choice, input)) (template_choice l)\<rparr>"

text \<open>
  A network on which no send can raise: every request gets a response whose body
  decodes.
\<close>

definition answers_json :: "'w net \<Rightarrow> bool" where
  "answers_json net =
     (\<forall>w rq. case fst (net w rq) of
                Transport_failure \<Rightarrow> False
              | Response code body \<Rightarrow> body \<noteq> None)"

text \<open>
  The send button pressed with an input of its validation chain missing: no template
  chosen, no table, no ticked row, or no phone column.
\<close>

definition send_input_missing :: "locals \<Rightarrow> bool" where
  "send_input_missing l =
     (template_choice l = None \<or>
      (case edited_df l of None \<Rightarrow> True | Some df \<Rightarrow> filter Send (rows df) = []) \<or>
      phone_col l = None \<or> phone_col l = Some [])"

text \<open>Lines joined again with the separator \<open>split\<close> removed.\<close>

fun join_lines :: "string list \<Rightarrow> string" where
  "join_lines [] = []"
| "join_lines [l] = l"
| "join_lines (l # m # ls) = l @ newline # join_lines (m # ls)"

section \<open>Basic facts about the effects\<close>

lemma calls_emit [simp]: "calls (emit e s) = calls s"
  by (simp add: emit_def)

lemma world_emit [simp]: "world (emit e s) = world s"
  by (simp add: emit_def)

lemma shown_emit [simp]: "shown (emit e s) = shown s @ [e]"
  by (simp add: emit_def)

section \<open>The template lister\<close>

text \<open>
  On a listing whose entries are all well formed the comprehension raises nothing and
  yields the approved names.
\<close>

lemma approved_templates_listed:
  "list_all listed_entry entries \<Longrightarrow> approved_templates entries = Inr (approved_names entries)"
proof (induction entries)
  case Nil
  show ?case by (simp add: approved_names_def)
next
  case (Cons t ts)
  from Cons.prems have t: "listed_entry t" and ts: "list_all listed_entry ts"
    by simp_all
  from t obtain kvs where obj: "t = JObject kvs"
    by (cases t) (simp_all add: listed_entry_def)
  show ?case
  proof (cases "is_approved t")
    case True
    with t obj obtain n where n: "map_of kvs ''name'' = Some n"
      by (auto simp: listed_entry_def)
    from True obj have "map_of kvs ''status'' = Some (JStr ''APPROVED'')"
      by (simp add: is_approved_def json_field_def)
    with n obj True Cons.IH [OF ts] show ?thesis
      by (simp add: approved_names_def json_field_def)
  next
    case False
    with obj have
      "(case map_of kvs ''status'' of None \<Rightarrow> JNull | Some v \<Rightarrow> v) \<noteq> JStr ''APPROVED''"
      by (auto simp: is_approved_def json_field_def split: option.splits)
    with obj False Cons.IH [OF ts] show ?thesis
      by (simp add: approved_names_def)
  qed
qed

text \<open>
  Claim C4. When the listing call is answered without a 4xx/5xx status by a JSON
  object whose \<open>data\<close> is a list of entries (objects; an approved one carries a name),
  the lister returns exactly the names of the entries whose status is the string
  \<open>APPROVED\<close>, compared exactly, in the order of the response.
\<close>

theorem lister_returns_approved_names_in_order:
  assumes answer: "net (world s) (templates_request token waba_id) =
                     (Response code (Some (JObject body)), w')"
    and ok: "\<not> raise_for_status code"
    and data: "map_of body ''data'' = Some (JArray entries)"
    and entries: "list_all listed_entry entries"
  shows "fst (get_message_templates net token waba_id s) = Inr (approved_names entries)"
proof -
  have "templates_of_body (JObject body) = Inr (approved_names entries)"
    using data approved_templates_listed [OF entries] by (simp add: templates_of_body_def)
  with ok show ?thesis
    by (simp add: get_message_templates_def http_call_def answer checked_json_def)
qed

text \<open>
  A listing with two approved templates among entries whose status is lower-case,
  rejected, or pending without a name: only the two come back, in order.
\<close>

theorem lister_returns_approved_names_in_order_witness:
  "fst (get_message_templates
          (always (Response 200 (Some (JObject [(''data'', JArray
             [JObject [(''name'', JStr ''order_update''), (''status'', JStr ''APPROVED'')],
              JObject [(''name'', JStr ''promo''), (''status'', JStr ''approved'')],
              JObject [(''name'', JStr ''old''), (''status'', JStr ''REJECTED'')],
              JObject [(''status'', JStr ''PENDING'')],
              JObject [(''name'', JStr ''hello_world''), (''status'', JStr ''APPROVED'')]])]))))
          ''token'' ''1234'' (start ()))
     = Inr [JStr ''order_update'', JStr ''hello_world'']"
  using lister_returns_approved_names_in_order
    [of "always (Response 200 (Some (JObject [(''data'', JArray
             [JObject [(''name'', JStr ''order_update''), (''status'', JStr ''APPROVED'')],
              JObject [(''name'', JStr ''promo''), (''status'', JStr ''approved'')],
              JObject [(''name'', JStr ''old''), (''status'', JStr ''REJECTED'')],
              JObject [(''status'', JStr ''PENDING'')],
              JObject [(''name'', JStr ''hello_world''), (''status'', JStr ''APPROVED'')]])])))"
        "start ()" "''token''" "''1234''" 200 "[(''data'', JArray
             [JObject [(''name'', JStr ''order_update''), (''status'', JStr ''APPROVED'')],
              JObject [(''name'', JStr ''promo''), (''status'', JStr ''approved'')],
              JObject [(''name'', JStr ''old''), (''status'', JStr ''REJECTED'')],
              JObject [(''status'', JStr ''PENDING'')],
              JObject [(''name'', JStr ''hello_world''), (''status'', JStr ''APPROVED'')]])]" "()"]
  by (simp add: always_def raise_for_status_def listed_entry_def is_approved_def
      json_field_def approved_names_def)

text \<open>
  Claim C9. When the listing call is answered with a 2xx status and a JSON body that
  has no \<open>data\<close> key, the lister returns the empty list and raises nothing. For an
  object the missing key is defaulted to the empty list, so nothing is shown; a body
  that is not an object has no \<open>get\<close>, and the second handler reports that.
\<close>

theorem missing_data_key_is_defaulted:
  assumes answer: "net (world s) (templates_request token waba_id) = (Response code (Some j), w')"
    and ok: "200 \<le> code \<and> code < 300"
    and nodata: "lacks_data j"
  shows "fst (get_message_templates net token waba_id s) = Inr [] \<and>
         shown (snd (get_message_templates net token waba_id s)) =
           shown s @ (case j of
                        JObject kvs \<Rightarrow> []
                      | _ \<Rightarrow> [St_error (Unexpected_error AttributeError), St_json j])"
proof -
  from ok have noraise: "\<not> raise_for_status code"
    by (simp add: raise_for_status_def)
  show ?thesis
  proof (cases j)
    case (JObject kvs)
    with nodata have "map_of kvs ''data'' = None"
      by (simp add: lacks_data_def json_field_def)
    with JObject have "templates_of_body j = Inr []"
      by (simp add: templates_of_body_def)
    with noraise JObject show ?thesis
      by (simp add: get_message_templates_def http_call_def answer checked_json_def)
  qed (use noraise in \<open>simp_all add: get_message_templates_def http_call_def answer
        checked_json_def templates_of_body_def response_json_def\<close>)
qed

theorem missing_data_key_is_defaulted_witness:
  "lacks_data (JObject [(''paging'', JObject [])]) \<and>
   fst (get_message_templates (always (Response 200 (Some (JObject [(''paging'', JObject [])]))))
          ''token'' ''1234'' (start ())) = Inr [] \<and>
   shown (snd (get_message_templates
                 (always (Response 200 (Some (JObject [(''paging'', JObject [])]))))
                 ''token'' ''1234'' (start ()))) = []"
  using missing_data_key_is_defaulted
    [of "always (Response 200 (Some (JObject [(''paging'', JObject [])])))" "start ()"
        "''token''" "''1234''" 200 "JObject [(''paging'', JObject [])]" "()"]
  by (simp add: always_def lacks_data_def json_field_def start_def)

text \<open>
  Claim C7, as the claim states it, fails for a status that is neither 2xx nor
  4xx/5xx: \<open>raise_for_status\<close> lets a 300 response through, so its approved templates
  are returned and no error is shown.
\<close>

theorem non_2xx_listing_counterexample:
  "\<not> (200 \<le> (300::nat) \<and> (300::nat) < 300) \<and>
   fst (get_message_templates
          (always (Response 300 (Some (JObject [(''data'', JArray
             [JObject [(''name'', JStr ''hello_world''), (''status'', JStr ''APPROVED'')]])]))))
          ''token'' ''1234'' (start ())) = Inr [JStr ''hello_world''] \<and>
   shown (snd (get_message_templates
          (always (Response 300 (Some (JObject [(''data'', JArray
             [JObject [(''name'', JStr ''hello_world''), (''status'', JStr ''APPROVED'')]])]))))
          ''token'' ''1234'' (start ()))) = []"
  by (simp add: get_message_templates_def http_call_def always_def start_def checked_json_def
      raise_for_status_def templates_of_body_def)

text \<open>
  Claim C7, amended. On a transport failure or a response with a 4xx or 5xx status
  the lister raises nothing, returns the empty list and shows the error; the value it
  returns is the one a successful call with no approved template returns.
\<close>

theorem failed_listing_returns_empty_and_reports:
  assumes answer: "net (world s) (templates_request token waba_id) = (r, w')"
    and failed: "r = Transport_failure \<or> (r = Response code body \<and> 400 \<le> code \<and> code < 600)"
  shows "fst (get_message_templates net token waba_id s) = Inr [] \<and>
         shown (snd (get_message_templates net token waba_id s)) =
           shown s @ [St_error (Error_fetching_templates
                        (if r = Transport_failure then RequestException else HTTPError code))] \<and>
         fst (get_message_templates net token waba_id s) =
           fst (get_message_templates
                  (always (Response 200 (Some (JObject [(''data'', JArray [])]))))
                  token waba_id (start ()))"
  using failed
  by (auto simp: get_message_templates_def http_call_def answer checked_json_def always_def
      templates_of_body_def start_def raise_for_status_def)

theorem failed_listing_returns_empty_and_reports_witness:
  "fst (get_message_templates
          (always (Response 401 (Some (JObject [(''error'', JStr ''Invalid OAuth token'')]))))
          ''token'' ''1234'' (start ())) = Inr [] \<and>
   shown (snd (get_message_templates
          (always (Response 401 (Some (JObject [(''error'', JStr ''Invalid OAuth token'')]))))
          ''token'' ''1234'' (start ()))) = [St_error (Error_fetching_templates (HTTPError 401))] \<and>
   fst (get_message_templates (always Transport_failure) ''token'' ''1234'' (start ())) = Inr [] \<and>
   shown (snd (get_message_templates (always Transport_failure) ''token'' ''1234'' (start ()))) =
     [St_error (Error_fetching_templates RequestException)]"
  using failed_listing_returns_empty_and_reports
    [of "always (Response 401 (Some (JObject [(''error'', JStr ''Invalid OAuth token'')])))"
        "start ()" "''token''" "''1234''"
        "Response 401 (Some (JObject [(''error'', JStr ''Invalid OAuth token'')]))" "()" 401
        "Some (JObject [(''error'', JStr ''Invalid OAuth token'')])"]
    failed_listing_returns_empty_and_reports
    [of "always Transport_failure" "start ()" "''token''" "''1234''" Transport_failure "()" 0 None]
  by (simp add: always_def start_def)

text \<open>
  Whatever the network answers, no exception leaves \<open>get_message_templates\<close>: the
  second handler reads \<open>response.json()\<close> only after the \<open>try\<close> block decoded it.
\<close>

theorem lister_never_raises:
  "\<exists>approved. fst (get_message_templates net token waba_id s) = Inr approved"
proof -
  obtain r w' where nw: "net (world s) (templates_request token waba_id) = (r, w')"
    by (cases "net (world s) (templates_request token waba_id)")
  show ?thesis
  proof (cases r)
    case Transport_failure
    then show ?thesis
      by (simp add: get_message_templates_def http_call_def nw checked_json_def)
  next
    case (Response code body)
    then show ?thesis
      by (cases body; cases "raise_for_status code")
        (simp_all add: get_message_templates_def http_call_def nw checked_json_def
          response_json_def split: sum.splits)
  qed
qed

text \<open>
  With the token or the account id empty the fetch button makes no call, shows the
  error and leaves the session's templates as they were.
\<close>

theorem fetch_without_credentials_makes_no_call:
  assumes "token = [] \<or> waba_id = []"
  shows "fetch_button net token waba_id templates s =
           (Inr templates, emit (St_error Provide_token_and_waba_id) s)"
  using assms by (auto simp: fetch_button_def)


theorem fetch_without_credentials_makes_no_call_witness:
  "fetch_button (always Transport_failure) '''' ''1234'' [] (start ()) =
     (Inr [], \<lparr>world = (), calls = [], shown = [St_error Provide_token_and_waba_id]\<rparr>)"
  using fetch_without_credentials_makes_no_call
    [of "''''" "''1234''" "always Transport_failure" "[]" "start ()"]
  by (simp add: start_def emit_def)

section \<open>The variables text and the message\<close>

text \<open>
  \<open>split\<close> cuts at the separator and nowhere else, and \<open>strip\<close> removes whitespace at
  the two ends and nothing else.
\<close>

lemma py_split_Nil [simp]: "py_split sep [] = [[]]"
  by (simp add: py_split.simps)

lemma py_split_nonempty: "py_split sep s \<noteq> []"
  by (subst py_split.simps) (simp split: list.splits)

lemma py_split_join: "join_lines (py_split newline s) = s"
proof (induction newline s rule: py_split.induct)
  case (1 s)
  show ?case
  proof (cases "dropWhile (\<lambda>c. c \<noteq> newline) s")
    case Nil
    then show ?thesis by (subst py_split.simps) (simp only: list.case join_lines.simps)
  next
    case (Cons x rest)
    then have x: "x = newline"
      using hd_dropWhile [of "\<lambda>c. c \<noteq> newline" s] by simp
    obtain m ms where ms: "py_split newline rest = m # ms"
      using py_split_nonempty [of newline rest] by (cases "py_split newline rest") auto
    have "join_lines (py_split newline s) =
            takeWhile (\<lambda>c. c \<noteq> newline) s @ newline # join_lines (py_split newline rest)"
      by (subst py_split.simps) (simp add: Cons ms)
    also have "\<dots> = takeWhile (\<lambda>c. c \<noteq> newline) s @ newline # rest"
      using "1" [OF Cons] by simp
    also have "\<dots> = takeWhile (\<lambda>c. c \<noteq> newline) s @ dropWhile (\<lambda>c. c \<noteq> newline) s"
      by (simp add: Cons x)
    finally show ?thesis by simp
  qed
qed

lemma py_split_no_sep: "l \<in> set (py_split sep s) \<Longrightarrow> sep \<notin> set l"
proof (induction sep s rule: py_split.induct)
  case (1 sep s)
  show ?case
  proof (cases "dropWhile (\<lambda>c. c \<noteq> sep) s")
    case Nil
    with "1.prems" have "l = s" by (subst (asm) py_split.simps) (simp only: list.case list.set singleton_iff)
    with Nil show ?thesis by auto
  next
    case (Cons x rest)
    with "1.prems" have "l = takeWhile (\<lambda>c. c \<noteq> sep) s \<or> l \<in> set (py_split sep rest)"
      by (subst (asm) py_split.simps) simp
    then show ?thesis
      using "1.IH" [OF Cons] by (auto dest: set_takeWhileD)
  qed
qed

lemma py_split_chars: "l \<in> set (py_split sep s) \<Longrightarrow> set l \<subseteq> set s"
proof (induction sep s rule: py_split.induct)
  case (1 sep s)
  show ?case
  proof (cases "dropWhile (\<lambda>c. c \<noteq> sep) s")
    case Nil
    with "1.prems" have "l = s" by (subst (asm) py_split.simps) (simp only: list.case list.set singleton_iff)
    then show ?thesis by simp
  next
    case (Cons x rest)
    have rest: "set rest \<subseteq> set s"
    proof
      fix c assume "c \<in> set rest"
      then have "c \<in> set (dropWhile (\<lambda>c. c \<noteq> sep) s)" by (simp add: Cons)
      then show "c \<in> set s" by (rule set_dropWhileD)
    qed
    from Cons "1.prems" have "l = takeWhile (\<lambda>c. c \<noteq> sep) s \<or> l \<in> set (py_split sep rest)"
      by (subst (asm) py_split.simps) simp
    then show ?thesis
      using "1.IH" [OF Cons] rest by (auto dest: set_takeWhileD)
  qed
qed

lemma py_strip_Nil_iff: "py_strip l = [] \<longleftrightarrow> blank l"
proof
  assume "py_strip l = []"
  then have all: "\<forall>c\<in>set (dropWhile py_isspace l). py_isspace c"
    by (simp add: py_strip_def)
  have "dropWhile py_isspace l = []"
  proof (rule ccontr)
    assume ne: "dropWhile py_isspace l \<noteq> []"
    then have "\<not> py_isspace (hd (dropWhile py_isspace l))" by (rule hd_dropWhile)
    moreover from ne have "hd (dropWhile py_isspace l) \<in> set (dropWhile py_isspace l)" by simp
    ultimately show False using all by blast
  qed
  then show "blank l" by (simp add: blank_def list_all_iff)
next
  assume "blank l"
  then show "py_strip l = []"
    by (auto simp: py_strip_def blank_def list_all_iff dest: set_dropWhileD)
qed

lemma rev_cut: "xs = rev (dropWhile P (rev xs)) @ rev (takeWhile P (rev xs))"
  by (metis rev_append rev_rev_ident takeWhile_dropWhile_id)

lemma py_strip_inside:
  "\<exists>p q. l = p @ py_strip l @ q \<and> blank p \<and> blank q"
proof -
  let ?m = "dropWhile py_isspace l"
  have m: "?m = py_strip l @ rev (takeWhile py_isspace (rev ?m))"
    unfolding py_strip_def by (rule rev_cut)
  have "l = takeWhile py_isspace l @ ?m" by simp
  with m have "l = takeWhile py_isspace l @ py_strip l @ rev (takeWhile py_isspace (rev ?m))"
    by simp
  moreover have "blank (takeWhile py_isspace l)"
    by (auto simp: blank_def list_all_iff dest: set_takeWhileD)
  moreover have "blank (rev (takeWhile py_isspace (rev ?m)))"
    by (auto simp: blank_def list_all_iff dest: set_takeWhileD)
  ultimately show ?thesis by blast
qed

lemma py_strip_ends:
  assumes "py_strip l \<noteq> []"
  shows "\<not> py_isspace (hd (py_strip l)) \<and> \<not> py_isspace (last (py_strip l))"
proof -
  let ?m = "dropWhile py_isspace l"
  let ?d = "dropWhile py_isspace (rev ?m)"
  from assms have d: "?d \<noteq> []" unfolding py_strip_def by (simp only: rev_is_Nil_conv not_False_eq_True)
  have m: "?m \<noteq> []"
  proof
    assume "?m = []"
    then have "?d = []" by (simp only: rev.simps dropWhile.simps)
    with d show False ..
  qed
  have "last (py_strip l) = hd ?d" using d unfolding py_strip_def by (simp only: last_rev)
  moreover have "\<not> py_isspace (hd ?d)" using d by (rule hd_dropWhile)
  ultimately have last: "\<not> py_isspace (last (py_strip l))" by simp
  have nh: "\<not> py_isspace (hd ?m)" using m by (rule hd_dropWhile)
  have "?m = py_strip l @ rev (takeWhile py_isspace (rev ?m))"
    unfolding py_strip_def by (rule rev_cut)
  with assms have "hd ?m = hd (py_strip l)"
    by (metis hd_append2)
  with nh last show ?thesis by simp
qed

lemma parse_variables_eq:
  "parse_variables input = map py_strip (filter (\<lambda>l. \<not> blank l) (py_split newline input))"
proof -
  have "concat (map (\<lambda>var. if py_strip var \<noteq> [] then [py_strip var] else []) ls) =
          map py_strip (filter (\<lambda>l. \<not> blank l) ls)" for ls
    by (induction ls) (simp_all add: py_strip_Nil_iff)
  then show ?thesis by (simp add: parse_variables_def)
qed

lemma parse_variables_blank: "blank input \<Longrightarrow> parse_variables input = []"
proof -
  assume b: "blank input"
  have "blank l" if "l \<in> set (py_split newline input)" for l
    using py_split_chars [OF that] b by (auto simp: blank_def list_all_iff)
  then show ?thesis by (simp add: parse_variables_eq filter_empty_conv)
qed

lemma components_field_message_data:
  "components_field (message_data to_number name variables) = Some (JArray (components_of variables))"
  by (simp add: components_field_def message_data_def json_field_def)

lemma components_of_parse_variables:
  "components_of (parse_variables input) =
     (let ps = map (\<lambda>l. JObject [(''type'', JStr ''text''), (''text'', JStr (py_strip l))])
                 (filter (\<lambda>l. \<not> blank l) (py_split newline input))
      in if ps = [] then []
         else [JObject [(''type'', JStr ''body''), (''parameters'', JArray ps)]])"
  by (simp add: parse_variables_eq components_of_def text_parameter_def comp_def Let_def)

section \<open>The send loop and the send button\<close>

lemma send_template_message_calls:
  "calls (snd (send_template_message net token phone_id to_number template variables s)) =
     calls s @ [messages_request token phone_id to_number template variables]"
  by (simp add: send_template_message_def http_call_def
      split: prod.splits sum.splits)

lemma send_template_message_shown:
  "shown (snd (send_template_message net token phone_id to_number template variables s)) = shown s"
  by (simp add: send_template_message_def http_call_def
      split: prod.splits sum.splits)

lemma send_loop_calls:
  "\<exists>k\<le>length numbers.
     calls (snd (send_loop net token phone_id template variables n i numbers acc s)) =
       calls s @ map (\<lambda>number. messages_request token phone_id (py_str number) template variables)
                   (take k numbers)"
proof (induction numbers arbitrary: i acc s)
  case Nil
  show ?case by simp
next
  case (Cons number rest)
  let ?rq = "\<lambda>number. messages_request token phone_id (py_str number) template variables"
  obtain r s1 where one:
    "send_template_message net token phone_id (py_str number) template variables
       (emit (St_spinner_sending number (i + 1) n) s) = (r, s1)"
    by (cases "send_template_message net token phone_id (py_str number) template variables
       (emit (St_spinner_sending number (i + 1) n) s)")
  have c1: "calls s1 = calls s @ [?rq number]"
    using send_template_message_calls
      [of net token phone_id "py_str number" template variables
          "emit (St_spinner_sending number (i + 1) n) s"]
    unfolding one by simp
  show ?case
  proof (cases r)
    case (Inl e)
    with one c1 have
      "calls (snd (send_loop net token phone_id template variables n i (number # rest) acc s)) =
         calls s @ map ?rq (take 1 (number # rest))"
      by simp
    then show ?thesis
      by (intro exI [of _ 1]) simp
  next
    case (Inr response)
    let ?s2 = "emit (St_progress (i + 1) n) s1"
    from Cons.IH [of "i + 1" "acc @ [(number, response)]" ?s2]
    obtain k where k: "k \<le> length rest"
      and ck: "calls (snd (send_loop net token phone_id template variables n (i + 1) rest
                 (acc @ [(number, response)]) ?s2)) = calls ?s2 @ map ?rq (take k rest)"
      by blast
    from ck c1 one Inr have
      "calls (snd (send_loop net token phone_id template variables n i (number # rest) acc s)) =
         calls s @ map ?rq (take (Suc k) (number # rest))"
      by simp
    with k show ?thesis
      by (intro exI [of _ "Suc k"]) simp
  qed
qed

lemma request_to_messages_request [simp]:
  "request_to (messages_request token phone_id to_number template variables) = Some (JStr to_number)"
  by (simp add: request_to_def messages_request_def message_data_def json_field_def)

lemma send_loop_to_fields:
  "map request_to (new_calls s (snd (send_loop net token phone_id template variables n i numbers acc s))) =
     map (\<lambda>number. Some (JStr (py_str number)))
       (take (length (new_calls s (snd (send_loop net token phone_id template variables n i numbers acc s))))
          numbers)"
proof -
  obtain k where k: "k \<le> length numbers"
    and ck: "calls (snd (send_loop net token phone_id template variables n i numbers acc s)) =
       calls s @ map (\<lambda>number. messages_request token phone_id (py_str number) template variables)
                   (take k numbers)"
    using send_loop_calls by blast
  from ck k show ?thesis
    by (simp add: new_calls_def comp_def min_absorb2)
qed

lemma calls_fold_emit: "calls (fold (\<lambda>x. emit (f x)) xs s) = calls s"
  by (induction xs arbitrary: s) simp_all

lemma calls_report [simp]: "calls (report res n s) = calls s"
  by (simp add: report_def Let_def calls_fold_emit)

lemma new_calls_same [simp]: "new_calls s s = []"
  by (simp add: new_calls_def)

lemma new_calls_emit [simp]: "new_calls s (emit e s') = new_calls s s'"
  by (simp add: new_calls_def)

lemma new_calls_emit_left [simp]: "new_calls (emit e s) s' = new_calls s s'"
  by (simp add: new_calls_def)

lemma new_calls_report [simp]: "new_calls s (report res n s') = new_calls s s'"
  by (simp add: new_calls_def)

text \<open>
  Claim C10. Every send request the button issues carries, as the \<open>to\<close> entry of its
  message, the JSON string \<open>str(number)\<close> of the cell that the corresponding ticked row
  has in the chosen phone column, whatever the type of the cell.
\<close>

theorem to_field_is_str_of_phone_cell:
  assumes df: "edited_df l = Some df" and col: "phone_col l = Some col"
  shows "map request_to (new_calls s (snd (send_button net l s))) =
           map (\<lambda>r. Some (JStr (py_str (cells r col))))
             (take (length (new_calls s (snd (send_button net l s)))) (filter Send (rows df)))"
proof (cases "template_choice l")
  case None
  then show ?thesis by (simp add: send_button_def)
next
  case (Some choice)
  obtain selected_template input where choice: "choice = (selected_template, input)"
    by (cases choice)
  let ?numbers = "map (\<lambda>r. cells r col) (filter Send (rows df))"
  let ?s0 = "emit (St_info (Preparing_to_send selected_template (length ?numbers))) s"
  let ?loop = "send_loop net (api_token l) (phone_number_id l) selected_template
                 (parse_variables input) (length ?numbers) 0 ?numbers [] ?s0"
  have loop: "map request_to (new_calls s (snd ?loop)) =
          map (\<lambda>r. Some (JStr (py_str (cells r col))))
             (take (length (new_calls s (snd ?loop))) (filter Send (rows df)))"
    using send_loop_to_fields [of ?s0 net "api_token l" "phone_number_id l" selected_template
        "parse_variables input" "length ?numbers" 0 ?numbers "[]"]
    by (simp add: take_map comp_def)
  have "calls (snd (send_button net l s)) = calls (snd ?loop) \<or>
        calls (snd (send_button net l s)) = calls s"
    by (simp add: send_button_def Some choice df col column_tolist_def recipients_to_send_def
        Let_def split: prod.splits sum.splits)
  then have "new_calls s (snd (send_button net l s)) = new_calls s (snd ?loop) \<or>
             new_calls s (snd (send_button net l s)) = []"
    by (auto simp: new_calls_def)
  with loop show ?thesis by auto
qed

lemmas run_defs =
  send_button_def ready_to_send_def phone_table_def recipients_to_send_def column_tolist_def
  parse_variables_def py_strip_def send_template_message_def http_call_def
  checked_json_def response_json_def raise_for_status_def emit_def start_def report_def
  str_int_def str_nat.simps digit_char_def py_split.simps Let_def

theorem to_field_is_str_of_phone_cell_witness:
  "map request_to
     (new_calls (start ())
        (snd (send_button (always (Response 200 (Some (JObject []))))
                (ready_to_send ''token'' ''100'' [CInt 15550001111, CStr ''+44 20 7946 0958''])
                (start ())))) =
   [Some (JStr ''15550001111''), Some (JStr ''+44 20 7946 0958'')]"
  using to_field_is_str_of_phone_cell [of "ready_to_send ''token'' ''100'' [CInt 15550001111, CStr ''+44 20 7946 0958'']"
      "phone_table [CInt 15550001111, CStr ''+44 20 7946 0958'']" "''phone''" "start ()"
      "always (Response 200 (Some (JObject [])))"]
  by (simp add: run_defs always_def new_calls_def)

text \<open>
  What the requests of a run carry as \<open>components\<close>: every request the send button
  issues is built from the variables parsed from the text typed in.
\<close>

lemma request_components_messages_request [simp]:
  "request_components (messages_request token phone_id to_number template variables) =
     Some (JArray (components_of variables))"
  by (simp add: request_components_def messages_request_def components_field_message_data)

lemma send_button_calls:
  assumes tmpl: "template_choice l = Some (template, input)"
  shows "\<exists>k numbers.
           calls (snd (send_button net l s)) =
             calls s @ map (\<lambda>number. messages_request (api_token l) (phone_number_id l)
                                        (py_str number) template (parse_variables input))
                         (take k numbers)"
proof -
  let ?rq = "\<lambda>number. messages_request (api_token l) (phone_number_id l)
                         (py_str number) template (parse_variables input)"
  have none: "calls (snd (send_button net l s)) = calls s \<Longrightarrow> ?thesis"
    by (intro exI [of _ 0] exI [of _ "[]"]) simp
  show ?thesis
  proof (cases "edited_df l")
    case None
    then show ?thesis by (intro none) (simp add: send_button_def tmpl)
  next
    case (Some df)
    show ?thesis
    proof (cases "phone_col l")
      case None
      then show ?thesis by (intro none) (simp add: send_button_def tmpl Some)
    next
      case col: (Some col)
      let ?numbers = "map (\<lambda>r. cells r col) (filter Send (rows df))"
      let ?s0 = "emit (St_info (Preparing_to_send template (length ?numbers))) s"
      let ?loop = "send_loop net (api_token l) (phone_number_id l) template
                     (parse_variables input) (length ?numbers) 0 ?numbers [] ?s0"
      have "calls (snd (send_button net l s)) = calls (snd ?loop) \<or>
            calls (snd (send_button net l s)) = calls s"
        by (simp add: send_button_def tmpl Some col column_tolist_def recipients_to_send_def
            Let_def split: prod.splits sum.splits)
      then show ?thesis
      proof
        assume "calls (snd (send_button net l s)) = calls s"
        then show ?thesis by (rule none)
      next
        assume loop: "calls (snd (send_button net l s)) = calls (snd ?loop)"
        from send_loop_calls [of ?numbers net "api_token l" "phone_number_id l" template
            "parse_variables input" "length ?numbers" 0 "[]" ?s0]
        obtain k where "calls (snd ?loop) = calls ?s0 @ map ?rq (take k ?numbers)"
          by blast
        with loop have "calls (snd (send_button net l s)) = calls s @ map ?rq (take k ?numbers)"
          by simp
        then show ?thesis by blast
      qed
    qed
  qed
qed

lemma sent_components:
  assumes tmpl: "template_choice l = Some (template, input)"
  shows "map request_components (new_calls s (snd (send_button net l s))) =
           replicate (length (new_calls s (snd (send_button net l s))))
             (Some (JArray (components_of (parse_variables input))))"
proof -
  from send_button_calls [OF tmpl, of net s]
  obtain k numbers where
    "calls (snd (send_button net l s)) =
       calls s @ map (\<lambda>number. messages_request (api_token l) (phone_number_id l)
                                  (py_str number) template (parse_variables input))
                   (take k numbers)"
    by blast
  then show ?thesis
    by (simp add: new_calls_def comp_def map_replicate_const)
qed

text \<open>
  Claim C3, as the claim states it, fails: with an empty variables text the message of
  the request the send button issues still has the \<open>components\<close> entry in its template
  object, holding the empty list; the entry is not absent.
\<close>

theorem sent_components_counterexample:
  "map request_components
     (new_calls (start ())
        (snd (send_button (always (Response 200 (Some (JObject []))))
                (ready_to_send ''token'' ''100'' [CInt 15550001111]) (start ())))) =
     [Some (JArray [])] \<and>
   map request_components
     (new_calls (start ())
        (snd (send_button (always (Response 200 (Some (JObject []))))
                (ready_to_send ''token'' ''100'' [CInt 15550001111]) (start ())))) \<noteq> [None]"
  by (simp add: run_defs always_def new_calls_def components_of_def)

text \<open>
  Claim C3, amended. With a variables text that is empty (or holds only whitespace),
  the message of every request the send button issues has, in its template object, a
  \<open>components\<close> entry whose value is the empty list: the entry is present and holds no
  body component.
\<close>

theorem sent_components_present_but_empty:
  assumes "template_choice l = Some (template, input)" and "blank input"
  shows "map request_components (new_calls s (snd (send_button net l s))) =
           replicate (length (new_calls s (snd (send_button net l s)))) (Some (JArray []))"
  using sent_components [OF assms(1), of s net] assms(2)
  by (simp add: parse_variables_blank components_of_def)

theorem sent_components_present_but_empty_witness:
  "blank '''' \<and>
   map request_components
     (new_calls (start ())
        (snd (send_button (always (Response 200 (Some (JObject []))))
                (ready_to_send ''token'' ''100'' [CInt 1, CInt 2]) (start ())))) =
     [Some (JArray []), Some (JArray [])]"
  using sent_components_present_but_empty
    [of "ready_to_send ''token'' ''100'' [CInt 1, CInt 2]" "JStr ''hello_world''" "''''"
        "start ()" "always (Response 200 (Some (JObject [])))"]
  by (simp add: run_defs always_def new_calls_def components_of_def blank_def)

text \<open>
  Claim C5. The message of every request the send button issues has as \<open>components\<close>,
  when the variables text has a non-blank line, exactly one body component, whose
  parameter list has one text parameter per non-blank line of the text, carrying that
  line stripped of the whitespace around it, in the order of the lines; with no
  non-blank line the list of components is empty.
\<close>

theorem sent_parameters_are_trimmed_nonblank_lines:
  assumes "template_choice l = Some (template, input)"
  shows "map request_components (new_calls s (snd (send_button net l s))) =
           replicate (length (new_calls s (snd (send_button net l s))))
             (Some (JArray
                (let ps = map (\<lambda>l. JObject [(''type'', JStr ''text''),
                                                (''text'', JStr (py_strip l))])
                            (filter (\<lambda>l. \<not> blank l) (py_split newline input))
                 in if ps = [] then []
                    else [JObject [(''type'', JStr ''body''), (''parameters'', JArray ps)]])))"
  using sent_components [OF assms, of s net]
  by (simp only: components_of_parse_variables)


text \<open>
  Two recipients; the text has a padded name, an empty line, a line of spaces, and a
  number ending in a carriage return, then a trailing line break.
\<close>

theorem sent_parameters_are_trimmed_nonblank_lines_witness:
  "map request_components
     (new_calls (start ())
        (snd (send_button (always (Response 200 (Some (JObject []))))
                (with_variables
                   ('' Alice  '' @ [newline, newline] @ ''  '' @ [newline] @ ''42'' @ [CHR 0x0D, newline])
                   (ready_to_send ''token'' ''100'' [CInt 1, CInt 2]))
                (start ())))) =
     [Some (JArray
        [JObject [(''type'', JStr ''body''),
                  (''parameters'', JArray
                     [JObject [(''type'', JStr ''text''), (''text'', JStr ''Alice'')],
                      JObject [(''type'', JStr ''text''), (''text'', JStr ''42'')]])]]),
      Some (JArray
        [JObject [(''type'', JStr ''body''),
                  (''parameters'', JArray
                     [JObject [(''type'', JStr ''text''), (''text'', JStr ''Alice'')],
                      JObject [(''type'', JStr ''text''), (''text'', JStr ''42'')]])]])]"
  using sent_parameters_are_trimmed_nonblank_lines
    [of "with_variables
           ('' Alice  '' @ [newline, newline] @ ''  '' @ [newline] @ ''42'' @ [CHR 0x0D, newline])
           (ready_to_send ''token'' ''100'' [CInt 1, CInt 2])" "JStr ''hello_world''"
        "'' Alice  '' @ [newline, newline] @ ''  '' @ [newline] @ ''42'' @ [CHR 0x0D, newline]"
        "start ()" "always (Response 200 (Some (JObject [])))"]
  by (simp add: run_defs with_variables_def always_def new_calls_def components_of_def
      text_parameter_def newline_def py_isspace_def blank_def)

text \<open>
  Claim C1. With more than 250 rows ticked the send button issues no HTTP call and
  returns no outcome; the one thing it shows is a rejection: the error naming the
  count and the maximum, unless an earlier check of the chain (no template, no phone
  column) already rejected the send.
\<close>

theorem over_cap_send_is_rejected_wholesale:
  assumes df: "edited_df l = Some df" and over: "length (filter Send (rows df)) > 250"
  shows "calls (snd (send_button net l s)) = calls s \<and>
         fst (send_button net l s) = Inr None \<and>
         shown (snd (send_button net l s)) =
           shown s @
           [case template_choice l of
              None \<Rightarrow> St_warning Select_template_first
            | Some choice \<Rightarrow>
                if phone_col l = None \<or> phone_col l = Some [] then St_warning Select_phone_column
                else St_error (Not_sent_over_maximum (length (filter Send (rows df))))]"
proof -
  from over have "rows df \<noteq> []" by auto
  with df over show ?thesis
    by (simp add: send_button_def recipients_to_send_def split: option.splits prod.splits)
qed


theorem over_cap_send_is_rejected_wholesale_witness:
  "calls (snd (send_button (always (Response 200 (Some (JObject []))))
                 (ready_to_send ''token'' ''100'' (replicate 251 (CInt 15550001111))) (start ()))) = [] \<and>
   fst (send_button (always (Response 200 (Some (JObject []))))
          (ready_to_send ''token'' ''100'' (replicate 251 (CInt 15550001111))) (start ())) = Inr None \<and>
   shown (snd (send_button (always (Response 200 (Some (JObject []))))
                 (ready_to_send ''token'' ''100'' (replicate 251 (CInt 15550001111))) (start ()))) =
     [St_error (Not_sent_over_maximum 251)]"
  using over_cap_send_is_rejected_wholesale [of "ready_to_send ''token'' ''100'' (replicate 251 (CInt 15550001111))"
      "phone_table (replicate 251 (CInt 15550001111))" "always (Response 200 (Some (JObject [])))"
      "start ()"]
  by (simp add: ready_to_send_def phone_table_def start_def)

text \<open>
  Claim C2 at a failing input: three recipients, and the second call fails to
  connect. The handler of \<open>send_template_message\<close> reads \<open>response.json()\<close> with
  \<open>response\<close> unassigned, the \<open>UnboundLocalError\<close> leaves the function, the loop and
  the script; the third recipient is never attempted and nothing is recorded.
\<close>

theorem transport_failure_halts_the_send_loop:
  "fst (send_button (fails_on_call 1) (ready_to_send ''token'' ''100'' [CInt 1, CInt 2, CInt 3])
          (start 0)) = Inl UnboundLocalError \<and>
   map request_to
     (calls (snd (send_button (fails_on_call 1)
                    (ready_to_send ''token'' ''100'' [CInt 1, CInt 2, CInt 3]) (start 0)))) =
     [Some (JStr ''1''), Some (JStr ''2'')]"
  by (simp add: run_defs fails_on_call_def)

text \<open>
  Claim C6 at a failing input: one recipient, and a gateway answers 502 with a body
  that is not JSON. The same handler raises on \<open>response.json()\<close>, so the run ends
  with an exception and returns no outcome at all.
\<close>

theorem undecodable_error_body_loses_all_outcomes:
  "fst (send_button (always (Response 502 None)) (ready_to_send ''token'' ''100'' [CInt 15550001111])
          (start ())) = Inl JSONDecodeError"
  by (simp add: run_defs always_def)


text \<open>
  Claim C8 at a failing input: the token and the phone number id are both empty, a
  template is chosen and one row is ticked. The send button does not check either
  credential and posts the message, with an empty bearer token and an empty id in the
  address.
\<close>

theorem send_without_credentials_calls_the_api:
  "map url (calls (snd (send_button (always (Response 401 (Some (JObject []))))
                          (ready_to_send '''' '''' [CInt 15550001111]) (start ())))) =
     [''https://graph.facebook.com/v19.0//messages''] \<and>
   map (\<lambda>rq. map_of (headers rq) ''Authorization'')
     (calls (snd (send_button (always (Response 401 (Some (JObject []))))
                    (ready_to_send '''' '''' [CInt 15550001111]) (start ())))) =
     [Some ''Bearer '']"
  by (simp add: run_defs always_def messages_request_def)

text \<open>
  An HTTP error status with a JSON body is not an exception of the send: the function
  returns the failure outcome, with the provider's body as its details.
\<close>

theorem http_error_is_recorded_as_failure:
  assumes "net (world s) (messages_request token phone_id to_number template variables) =
             (Response code (Some details), w')"
    and "400 \<le> code \<and> code < 600"
  shows "fst (send_template_message net token phone_id to_number template variables s) =
           Inr (Send_failed (HTTPError code) details)"
  using assms
  by (simp add: send_template_message_def http_call_def checked_json_def response_json_def
      raise_for_status_def)


theorem http_error_is_recorded_as_failure_witness:
  "fst (send_template_message
          (always (Response 400 (Some (JObject [(''error'', JStr ''invalid number'')]))))
          ''token'' ''100'' ''15550001111'' (JStr ''hello_world'') [] (start ())) =
     Inr (Send_failed (HTTPError 400) (JObject [(''error'', JStr ''invalid number'')]))"
  using http_error_is_recorded_as_failure
    [of "always (Response 400 (Some (JObject [(''error'', JStr ''invalid number'')])))"
        "start ()" "''token''" "''100''" "''15550001111''" "JStr ''hello_world''" "[]" 400
        "JObject [(''error'', JStr ''invalid number'')]" "()"]
  by (simp add: always_def)

text \<open>
  On a network where every call gets a response with a JSON body, whatever its
  status, no send raises and the loop records one outcome per recipient, in order.
\<close>

lemma send_template_message_returns:
  assumes "answers_json net"
  shows "\<exists>response. fst (send_template_message net token phone_id to_number template variables s) =
           Inr response"
proof -
  let ?rq = "messages_request token phone_id to_number template variables"
  obtain r w' where nw: "net (world s) ?rq = (r, w')"
    by (cases "net (world s) ?rq")
  from assms have "case fst (net (world s) ?rq) of
       Transport_failure \<Rightarrow> False | Response code body \<Rightarrow> body \<noteq> None"
    by (simp add: answers_json_def)
  with nw obtain code j where r: "r = Response code (Some j)"
    by (cases r) auto
  show ?thesis
    by (simp add: send_template_message_def http_call_def nw r checked_json_def response_json_def)
qed

lemma send_loop_completes:
  assumes "answers_json net"
  shows "\<exists>res. fst (send_loop net token phone_id template variables n i numbers acc s) =
                 Inr (acc @ res) \<and> map fst res = numbers"
proof (induction numbers arbitrary: i acc s)
  case Nil
  show ?case by simp
next
  case (Cons number rest)
  obtain r s1 where one:
    "send_template_message net token phone_id (py_str number) template variables
       (emit (St_spinner_sending number (i + 1) n) s) = (r, s1)"
    by (cases "send_template_message net token phone_id (py_str number) template variables
       (emit (St_spinner_sending number (i + 1) n) s)")
  from send_template_message_returns [OF assms, of token phone_id "py_str number" template
      variables "emit (St_spinner_sending number (i + 1) n) s"]
  obtain response where r: "r = Inr response"
    unfolding one by auto
  from Cons.IH [of "i + 1" "acc @ [(number, response)]" "emit (St_progress (i + 1) n) s1"]
  obtain res where
    "fst (send_loop net token phone_id template variables n (i + 1) rest
            (acc @ [(number, response)]) (emit (St_progress (i + 1) n) s1)) =
       Inr ((acc @ [(number, response)]) @ res)" and "map fst res = rest"
    by blast
  with one r have
    "fst (send_loop net token phone_id template variables n i (number # rest) acc s) =
       Inr (acc @ ((number, response) # res)) \<and> map fst ((number, response) # res) = number # rest"
    by simp
  then show ?case
    by (intro exI [of _ "(number, response) # res"])
qed

text \<open>
  With 1 to 250 rows ticked, the inputs of the chain present and such a network, the
  send button returns one outcome per ticked row, in the order of the rows.
\<close>

theorem one_outcome_per_recipient_when_no_send_raises:
  assumes net: "answers_json net"
    and tmpl: "template_choice l = Some choice"
    and df: "edited_df l = Some df"
    and col: "phone_col l = Some col" "col \<noteq> []" "col \<in> set (columns df)"
    and some: "filter Send (rows df) \<noteq> []"
    and cap: "length (filter Send (rows df)) \<le> 250"
  shows "\<exists>res. fst (send_button net l s) = Inr (Some res) \<and>
               map fst res = map (\<lambda>r. cells r col) (filter Send (rows df))"
proof -
  obtain selected_template input where choice: "choice = (selected_template, input)"
    by (cases choice)
  let ?numbers = "map (\<lambda>r. cells r col) (filter Send (rows df))"
  let ?loop = "send_loop net (api_token l) (phone_number_id l) selected_template
                 (parse_variables input) (length ?numbers) 0 ?numbers []
                 (emit (St_info (Preparing_to_send selected_template (length ?numbers))) s)"
  from send_loop_completes [OF net, of "api_token l" "phone_number_id l" selected_template
      "parse_variables input" "length ?numbers" 0 ?numbers "[]"
      "emit (St_info (Preparing_to_send selected_template (length ?numbers))) s"]
  obtain res where res: "fst ?loop = Inr res" and order: "map fst res = ?numbers"
    by auto
  obtain s1 where loop: "?loop = (Inr res, s1)"
    using res by (cases ?loop) auto
  from some have rows: "rows df \<noteq> []" by auto
  have "fst (send_button net l s) = Inr (Some res)"
    using loop rows some cap col
    by (simp add: send_button_def tmpl choice df column_tolist_def recipients_to_send_def Let_def)
  with order show ?thesis by blast
qed


text \<open>The second of three recipients is rejected with a 400: all three get their call.\<close>

theorem one_outcome_per_recipient_when_no_send_raises_witness:
  "fst (send_button (rejects_call 1) (ready_to_send ''token'' ''100'' [CInt 1, CInt 2, CInt 3])
          (start 0)) =
     Inr (Some [(CInt 1, Send_ok (JObject [])),
                (CInt 2, Send_failed (HTTPError 400) (JObject [(''error'', JStr ''invalid number'')])),
                (CInt 3, Send_ok (JObject []))]) \<and>
   map request_to
     (calls (snd (send_button (rejects_call 1)
                    (ready_to_send ''token'' ''100'' [CInt 1, CInt 2, CInt 3]) (start 0)))) =
     [Some (JStr ''1''), Some (JStr ''2''), Some (JStr ''3'')]"
  using one_outcome_per_recipient_when_no_send_raises
    [of "rejects_call 1" "ready_to_send ''token'' ''100'' [CInt 1, CInt 2, CInt 3]"
        "(JStr ''hello_world'', '''')" "phone_table [CInt 1, CInt 2, CInt 3]" "''phone''" "start 0"]
  by (simp add: run_defs rejects_call_def)

text \<open>
  With no template chosen, no table, no ticked row or no phone column the send button
  issues no HTTP call.
\<close>

theorem send_with_missing_input_makes_no_call:
  assumes "send_input_missing l"
  shows "calls (snd (send_button net l s)) = calls s"
proof (cases "template_choice l")
  case None
  then show ?thesis by (simp add: send_button_def)
next
  case (Some choice)
  obtain selected_template input where choice: "choice = (selected_template, input)"
    by (cases choice)
  show ?thesis
  proof (cases "edited_df l")
    case None
    then show ?thesis by (simp add: send_button_def Some choice)
  next
    case df: (Some df)
    show ?thesis
    proof (cases "phone_col l = None \<or> phone_col l = Some []")
      case True
      then show ?thesis
        by (auto simp: send_button_def Some choice df)
    next
      case False
      then obtain col where col: "phone_col l = Some col" "col \<noteq> []"
        by auto
      from assms Some df col have none: "filter Send (rows df) = []"
        by (simp add: send_input_missing_def)
      show ?thesis
        by (simp add: send_button_def Some choice df col none column_tolist_def
            recipients_to_send_def)
    qed
  qed
qed


theorem send_with_missing_input_makes_no_call_witness:
  "send_input_missing (ready_to_send ''token'' ''100'' []) \<and>
   calls (snd (send_button (always (Response 200 (Some (JObject []))))
                 (ready_to_send ''token'' ''100'' []) (start ()))) = []"
  using send_with_missing_input_makes_no_call
    [of "ready_to_send ''token'' ''100'' []" "always (Response 200 (Some (JObject [])))" "start ()"]
  by (simp add: send_input_missing_def ready_to_send_def phone_table_def start_def)

end
